theory Spec2Isabelle
  imports Main "HOL-Library.Sublist" "HOL-Library.Multiset"
begin

section \<open>Configuration and constants\<close>

text \<open>
  \<^verbatim>\<open>config.py\<close>: \<^verbatim>\<open>COOLDOWN_SECONDS = 60\<close>, \<^verbatim>\<open>LEVEL_INTERVAL = 50\<close>.
  \<^verbatim>\<open>bot.py\<close>, class \<^verbatim>\<open>KarmaEmojis\<close>: the lists \<^verbatim>\<open>LEVELS\<close> and \<^verbatim>\<open>REACTIONS\<close>
  hold five emoji each. An emoji is written here by its ASCII short name; only the
  number of entries, their order and their being pairwise different matter below.
\<close>

definition COOLDOWN_SECONDS :: int where
  "COOLDOWN_SECONDS = 60"

definition LEVEL_INTERVAL :: int where
  "LEVEL_INTERVAL = 50"

definition LEVELS :: "string list" where
  "LEVELS = [''star'', ''glowing_star'', ''sparkles'', ''dizzy'', ''comet'']"

definition REACTIONS :: "string list" where
  "REACTIONS = [''thumbs_up'', ''red_heart'', ''party_popper'', ''fire'', ''clapping_hands'']"

section \<open>Python list subscription\<close>

datatype py_error = IndexError

text \<open>
  The subscription \<^verbatim>\<open>xs[i]\<close> of a list of length \<open>n\<close>: for \<open>-n \<le> i < 0\<close> the entry at
  \<open>n + i\<close>, for \<open>0 \<le> i < n\<close> the entry at \<open>i\<close>, and \<^verbatim>\<open>IndexError\<close> for any other \<open>i\<close>.
\<close>

definition getitem :: "'a list \<Rightarrow> int \<Rightarrow> py_error + 'a" where
  "getitem xs i =
     (if - int (length xs) \<le> i \<and> i < 0 then Inr (xs ! nat (int (length xs) + i))
      else if 0 \<le> i \<and> i < int (length xs) then Inr (xs ! nat i)
      else Inl IndexError)"

section \<open>The database and the bot state\<close>

text \<open>
  Table \<^verbatim>\<open>karma\<close>, primary key \<open>(user_id, guild_id)\<close>. The table is the list of its
  rows in rowid order, which is the order a full scan of SQLite yields; a row keeps
  its place when \<^verbatim>\<open>ON CONFLICT ... DO UPDATE\<close> rewrites it, and a new row goes to the
  end. The column \<^verbatim>\<open>karma\<close> is a SQLite \<^verbatim>\<open>INTEGER\<close>, a signed 64-bit value: a row holds
  an integer total, and \<open>upsert_karma\<close> and \<open>update_karma\<close> below give the effect of the
  statements as long as the values bound and the total reached stay within that range;
  \<open>update_karma_int64\<close> adds what happens outside it. A value of SQLite's
  \<^verbatim>\<open>datetime('now')\<close> or \<^verbatim>\<open>CURRENT_TIMESTAMP\<close> (the text \<^verbatim>\<open>YYYY-MM-DD HH:MM:SS\<close>, whose text order is the
  order of time) is the number of seconds it denotes.
\<close>

record karma_row =
  user_id :: int
  guild_id :: int
  karma :: int
  last_updated :: "int option"

text \<open>Table \<^verbatim>\<open>karma_history\<close>; \<open>h_id\<close> is the \<^verbatim>\<open>AUTOINCREMENT\<close> key.\<close>

record history_row =
  h_id :: int
  h_user_id :: int
  h_guild_id :: int
  change :: int
  reason :: "string option"
  timestamp :: int

text \<open>
  The state the handlers share: the two tables behind \<^verbatim>\<open>bot.db_pool\<close>, the largest
  \<open>h_id\<close> handed out so far, and the dictionary \<^verbatim>\<open>bot.cooldowns\<close> from a user to the
  \<^verbatim>\<open>datetime.now()\<close> of the last grant or removal, in microseconds.
\<close>

record bot_state =
  karma_tbl :: "karma_row list"
  karma_history :: "history_row list"
  history_seq :: int
  cooldowns :: "int \<rightharpoonup> int"

definition init_state :: bot_state where
  "init_state = \<lparr>karma_tbl = [], karma_history = [], history_seq = 0, cooldowns = Map.empty\<rparr>"

text \<open>
  \<^verbatim>\<open>update_karma\<close> runs two statements, each reading the database clock on its own:
  the upsert stamps \<^verbatim>\<open>datetime('now')\<close>, the history row takes \<^verbatim>\<open>CURRENT_TIMESTAMP\<close>.
\<close>

record db_clock =
  upsert_now :: int
  log_now :: int

section \<open>KarmaManager\<close>

text \<open>The row a \<^verbatim>\<open>WHERE user_id = ? AND guild_id = ?\<close> with \<^verbatim>\<open>fetchone\<close> yields.\<close>

definition find_row :: "karma_row list \<Rightarrow> int \<Rightarrow> int \<Rightarrow> karma_row option" where
  "find_row rows u g = find (\<lambda>r. user_id r = u \<and> guild_id r = g) rows"

record karma_data =
  d_karma :: int
  d_last_updated :: "int option"

definition get_karma :: "bot_state \<Rightarrow> int \<Rightarrow> int \<Rightarrow> karma_data" where
  "get_karma s u g =
     (case find_row (karma_tbl s) u g of
        None \<Rightarrow> \<lparr>d_karma = 0, d_last_updated = None\<rparr>
      | Some row \<Rightarrow> \<lparr>d_karma = karma row, d_last_updated = last_updated row\<rparr>)"

text \<open>
  \<^verbatim>\<open>INSERT ... ON CONFLICT(user_id, guild_id) DO UPDATE SET karma = karma + excluded.karma,
  last_updated = excluded.last_updated RETURNING karma\<close>: the value returned and the new table.
\<close>

fun upsert_karma :: "karma_row list \<Rightarrow> int \<Rightarrow> int \<Rightarrow> int \<Rightarrow> int \<Rightarrow> int \<times> karma_row list" where
  "upsert_karma [] u g delta now =
     (delta, [\<lparr>user_id = u, guild_id = g, karma = delta, last_updated = Some now\<rparr>])"
| "upsert_karma (r # rs) u g delta now =
     (if user_id r = u \<and> guild_id r = g
      then (karma r + delta, r\<lparr>karma := karma r + delta, last_updated := Some now\<rparr> # rs)
      else (case upsert_karma rs u g delta now of (k, rs') \<Rightarrow> (k, r # rs')))"

definition calculate_level :: "int \<Rightarrow> int" where
  "calculate_level k = min (k div LEVEL_INTERVAL) (int (length LEVELS) - 1)"

record karma_result =
  new_karma :: int
  level :: int

definition update_karma ::
  "bot_state \<Rightarrow> db_clock \<Rightarrow> int \<Rightarrow> int \<Rightarrow> int \<Rightarrow> string option \<Rightarrow> karma_result \<times> bot_state" where
  "update_karma s clk u g delta why =
     (case upsert_karma (karma_tbl s) u g delta (upsert_now clk) of
        (k, tbl) \<Rightarrow>
          (\<lparr>new_karma = k, level = calculate_level k\<rparr>,
           s\<lparr>karma_tbl := tbl,
             karma_history := karma_history s @
               [\<lparr>h_id = history_seq s + 1, h_user_id = u, h_guild_id = g,
                 change = delta, reason = why, timestamp = log_now clk\<rparr>],
             history_seq := history_seq s + 1\<rparr>))"

text \<open>
  A \<^verbatim>\<open>LIMIT ?\<close> of SQLite: a negative bound means no bound.
\<close>

definition sql_limit :: "int \<Rightarrow> 'a list \<Rightarrow> 'a list" where
  "sql_limit n xs = (if n < 0 then xs else take (nat n) xs)"

text \<open>
  \<^verbatim>\<open>SELECT user_id, karma FROM karma WHERE guild_id = ? ORDER BY karma DESC LIMIT ?\<close>.
  The query names no second sort key, so the order of rows of equal karma is left to
  the engine: it is the order in which the plan SQLite has chosen visits the rows of the
  guild. That order is no part of the program and is the parameter \<open>visit\<close>; the
  sort on the negated karma keeps it among equal keys. SQLite has two plans for this
  query: the scan of the table, in rowid order, and, once statistics exist, the scan
  through the index of the primary key \<open>(user_id, guild_id)\<close>, which yields the rows
  of one guild by ascending \<open>user_id\<close>.
\<close>

definition get_leaderboard ::
  "(karma_row list \<Rightarrow> karma_row list) \<Rightarrow> bot_state \<Rightarrow> int \<Rightarrow> int \<Rightarrow> (int \<times> int) list" where
  "get_leaderboard visit s g limit =
     map (\<lambda>r. (user_id r, karma r))
       (sql_limit limit
          (sort_key (\<lambda>r. - karma r) (visit (filter (\<lambda>r. guild_id r = g) (karma_tbl s)))))"

definition table_scan :: "karma_row list \<Rightarrow> karma_row list" where
  "table_scan rows = rows"

definition index_scan :: "karma_row list \<Rightarrow> karma_row list" where
  "index_scan rows = sort_key user_id rows"

section \<open>The daily cleanup task\<close>

text \<open>
  \<^verbatim>\<open>DELETE FROM karma_history WHERE timestamp < datetime('now', '-30 days')\<close>, with \<open>now\<close>
  the database clock in seconds.
\<close>

definition retention_seconds :: int where
  "retention_seconds = 30 * 86400"

definition cleanup_task :: "bot_state \<Rightarrow> int \<Rightarrow> bot_state" where
  "cleanup_task s now =
     s\<lparr>karma_history := filter (\<lambda>e. \<not> timestamp e < now - retention_seconds) (karma_history s)\<rparr>"

section \<open>The cooldown gate\<close>

text \<open>
  \<^verbatim>\<open>check_cooldown\<close>: \<open>now\<close> is its \<^verbatim>\<open>datetime.now()\<close>, a \<^verbatim>\<open>timedelta\<close> is a number of
  microseconds. A stored \<^verbatim>\<open>datetime\<close> is never falsy, so \<^verbatim>\<open>not last_action\<close> holds
  for a missing entry only.
\<close>

definition check_cooldown :: "(int \<rightharpoonup> int) \<Rightarrow> int \<Rightarrow> int \<Rightarrow> int option" where
  "check_cooldown cds now u =
     (case cds u of
        None \<Rightarrow> None
      | Some last_action \<Rightarrow>
          (let elapsed = now - last_action; cooldown = COOLDOWN_SECONDS * 1000000
           in if elapsed < cooldown then Some (cooldown - elapsed) else None))"

section \<open>The commands\<close>

datatype error = SelfTargetError | CooldownActiveError int

text \<open>
  What a grant or removal that passed both checks produced: the dictionary
  \<^verbatim>\<open>update_karma\<close> returned, and the outcome of \<^verbatim>\<open>KarmaEmojis.LEVELS[result["level"]]\<close>,
  which the handler evaluates afterwards for the embed and which may raise.
\<close>

record give_reply =
  result :: karma_result
  level_emoji :: "py_error + string"

text \<open>
  \<^verbatim>\<open>karma_give\<close>: \<open>check_now\<close> is the clock read inside \<^verbatim>\<open>check_cooldown\<close>, \<open>record_now\<close>
  the one stored into \<^verbatim>\<open>bot.cooldowns\<close> after the update; \<open>actor\<close> is
  \<^verbatim>\<open>interaction.user.id\<close>, \<open>target\<close> is \<^verbatim>\<open>user.id\<close>. A \<^verbatim>\<open>timedelta\<close> is falsy only when
  zero, and the one \<^verbatim>\<open>check_cooldown\<close> returns is positive.
\<close>

definition karma_give ::
  "bot_state \<Rightarrow> int \<Rightarrow> db_clock \<Rightarrow> int \<Rightarrow> int \<Rightarrow> int \<Rightarrow> int \<Rightarrow> int \<Rightarrow> string option
     \<Rightarrow> (error + give_reply) \<times> bot_state" where
  "karma_give s check_now clk record_now actor target g amount why =
     (if target = actor then (Inl SelfTargetError, s)
      else case check_cooldown (cooldowns s) check_now actor of
        Some remaining \<Rightarrow>
          (if remaining \<noteq> 0 then (Inl (CooldownActiveError remaining), s)
           else (case update_karma s clk target g amount why of
             (res, s') \<Rightarrow>
               (Inr \<lparr>result = res, level_emoji = getitem LEVELS (level res)\<rparr>,
                s'\<lparr>cooldowns := (cooldowns s')(actor \<mapsto> record_now)\<rparr>)))
      | None \<Rightarrow>
          (case update_karma s clk target g amount why of
             (res, s') \<Rightarrow>
               (Inr \<lparr>result = res, level_emoji = getitem LEVELS (level res)\<rparr>,
                s'\<lparr>cooldowns := (cooldowns s')(actor \<mapsto> record_now)\<rparr>)))"

definition karma_remove ::
  "bot_state \<Rightarrow> int \<Rightarrow> db_clock \<Rightarrow> int \<Rightarrow> int \<Rightarrow> int \<Rightarrow> int \<Rightarrow> int \<Rightarrow> string option
     \<Rightarrow> (error + give_reply) \<times> bot_state" where
  "karma_remove s check_now clk record_now actor target g amount why =
     (if target = actor then (Inl SelfTargetError, s)
      else case check_cooldown (cooldowns s) check_now actor of
        Some remaining \<Rightarrow>
          (if remaining \<noteq> 0 then (Inl (CooldownActiveError remaining), s)
           else (case update_karma s clk target g (- amount) why of
             (res, s') \<Rightarrow>
               (Inr \<lparr>result = res, level_emoji = getitem LEVELS (level res)\<rparr>,
                s'\<lparr>cooldowns := (cooldowns s')(actor \<mapsto> record_now)\<rparr>)))
      | None \<Rightarrow>
          (case update_karma s clk target g (- amount) why of
             (res, s') \<Rightarrow>
               (Inr \<lparr>result = res, level_emoji = getitem LEVELS (level res)\<rparr>,
                s'\<lparr>cooldowns := (cooldowns s')(actor \<mapsto> record_now)\<rparr>)))"

text \<open>
  The first three lines of \<^verbatim>\<open>karma_check\<close>: the stored total, its level, and the
  subscription \<^verbatim>\<open>KarmaEmojis.LEVELS[level]\<close>.
\<close>

definition level_emoji_of :: "int \<Rightarrow> py_error + string" where
  "level_emoji_of points = getitem LEVELS (calculate_level points)"

definition karma_check_emoji :: "bot_state \<Rightarrow> int \<Rightarrow> int \<Rightarrow> py_error + string" where
  "karma_check_emoji s target g = level_emoji_of (d_karma (get_karma s target g))"

text \<open>
  \<^verbatim>\<open>admin_set\<close>: \<^verbatim>\<open>reason or "Admin adjustment"\<close> replaces \<^verbatim>\<open>None\<close> and the empty string.
  The handler reads \<^verbatim>\<open>interaction.guild_id\<close> only, never the invoking user. It returns the
  change it shows in the embed and the dictionary of \<^verbatim>\<open>update_karma\<close>.
\<close>

definition reason_or :: "string option \<Rightarrow> string \<Rightarrow> string" where
  "reason_or why dflt = (case why of None \<Rightarrow> dflt | Some r \<Rightarrow> if r = [] then dflt else r)"

definition admin_set ::
  "bot_state \<Rightarrow> db_clock \<Rightarrow> int \<Rightarrow> int \<Rightarrow> int \<Rightarrow> string option \<Rightarrow> (int \<times> karma_result) \<times> bot_state" where
  "admin_set s clk target g amount why =
     (let current = get_karma s target g;
          delta = amount - d_karma current
      in case update_karma s clk target g delta (Some (reason_or why ''Admin adjustment'')) of
           (res, s') \<Rightarrow> ((delta, res), s'))"

section \<open>Reactions\<close>

text \<open>
  \<^verbatim>\<open>on_raw_reaction_add\<close>: the payload carries the emoji, the reacting user and the guild;
  \<open>author\<close> is \<^verbatim>\<open>message.author.id\<close> of the message the handler fetches. The handler
  answers with the level-up message it sends, if any.
\<close>

record reaction_payload =
  emoji :: string
  p_user_id :: int
  p_guild_id :: int

record level_up =
  recipient :: int
  up_emoji :: string
  up_level :: int

definition on_raw_reaction_add ::
  "bot_state \<Rightarrow> db_clock \<Rightarrow> reaction_payload \<Rightarrow> int \<Rightarrow> (py_error + level_up option) \<times> bot_state" where
  "on_raw_reaction_add s clk payload author =
     (if emoji payload \<in> set REACTIONS then
        (if p_user_id payload = author then (Inr None, s)
         else case update_karma s clk author (p_guild_id payload) 1
                     (Some (''Received '' @ emoji payload @ '' reaction'')) of
           (res, s') \<Rightarrow>
             (let new_level = calculate_level (new_karma res);
                  old_level = (if new_karma res > 1 then new_level - 1 else 0)
              in if new_level > old_level
                 then (case getitem LEVELS new_level of
                         Inl e \<Rightarrow> (Inl e, s')
                       | Inr em \<Rightarrow>
                           (Inr (Some \<lparr>recipient = author, up_emoji = em, up_level = new_level\<rparr>), s'))
                 else (Inr None, s')))
      else (Inr None, s))"

section \<open>Sequences of updates\<close>

record update_call =
  c_clock :: db_clock
  c_user :: int
  c_guild :: int
  c_delta :: int
  c_reason :: "string option"

fun run_updates :: "bot_state \<Rightarrow> update_call list \<Rightarrow> bot_state" where
  "run_updates s [] = s"
| "run_updates s (c # cs) =
     run_updates (snd (update_karma s (c_clock c) (c_user c) (c_guild c) (c_delta c) (c_reason c))) cs"

section \<open>The 64-bit range of the database\<close>

text \<open>
  A Python integer bound to a statement must lie within the signed 64-bit range, else
  \<^verbatim>\<open>sqlite3\<close> raises \<^verbatim>\<open>OverflowError\<close> and the statement does not run. When
  \<^verbatim>\<open>karma + excluded.karma\<close> leaves that range, SQLite computes the sum in floating point
  and stores and returns a \<^verbatim>\<open>REAL\<close>; totals here are integers, so that outcome is
  named and not followed further.
\<close>

definition in_int64 :: "int \<Rightarrow> bool" where
  "in_int64 x = (- (2 ^ 63) \<le> x \<and> x < 2 ^ 63)"

datatype 'a sql_outcome = OverflowError | RealTotal | Done 'a

definition update_karma_int64 ::
  "bot_state \<Rightarrow> db_clock \<Rightarrow> int \<Rightarrow> int \<Rightarrow> int \<Rightarrow> string option
     \<Rightarrow> (karma_result \<times> bot_state) sql_outcome" where
  "update_karma_int64 s clk u g delta why =
     (if \<not> (in_int64 u \<and> in_int64 g \<and> in_int64 delta) then OverflowError
      else if \<not> in_int64 (d_karma (get_karma s u g) + delta) then RealTotal
      else Done (update_karma s clk u g delta why))"

fun run_updates_int64 :: "bot_state \<Rightarrow> update_call list \<Rightarrow> bot_state sql_outcome" where
  "run_updates_int64 s [] = Done s"
| "run_updates_int64 s (c # cs) =
     (case update_karma_int64 s (c_clock c) (c_user c) (c_guild c) (c_delta c) (c_reason c) of
        OverflowError \<Rightarrow> OverflowError
      | RealTotal \<Rightarrow> RealTotal
      | Done (res, s') \<Rightarrow> run_updates_int64 s' cs)"

text \<open>
  The calls of a sequence stay within the range: every value bound, and every total a
  call reaches, is a signed 64-bit integer.
\<close>

fun updates_in_range :: "bot_state \<Rightarrow> update_call list \<Rightarrow> bool" where
  "updates_in_range s [] = True"
| "updates_in_range s (c # cs) =
     (in_int64 (c_user c) \<and> in_int64 (c_guild c) \<and> in_int64 (c_delta c)
      \<and> in_int64 (d_karma (get_karma s (c_user c) (c_guild c)) + c_delta c)
      \<and> updates_in_range
           (snd (update_karma s (c_clock c) (c_user c) (c_guild c) (c_delta c) (c_reason c))) cs)"

section \<open>The order the specification asks of a leaderboard\<close>

text \<open>
  Not part of the program: the order in the words of the specification, entries
  \<open>(user, points)\<close> by points descending and, among equal points, by user identifier
  ascending. It is what \<open>get_leaderboard\<close> is compared with.
\<close>

definition spec_leaderboard_order :: "(int \<times> int) list \<Rightarrow> bool" where
  "spec_leaderboard_order es =
     sorted_wrt (\<lambda>a b. snd b < snd a \<or> (snd b = snd a \<and> fst a < fst b)) es"

section \<open>The ledger: lookups after an update\<close>

lemma find_row_upsert:
  "find_row (snd (upsert_karma rows u g d now)) u' g' =
     (if u' = u \<and> g' = g
      then Some (case find_row rows u g of
                   None \<Rightarrow> \<lparr>user_id = u, guild_id = g, karma = d, last_updated = Some now\<rparr>
                 | Some r \<Rightarrow> r\<lparr>karma := karma r + d, last_updated := Some now\<rparr>)
      else find_row rows u' g')"
  by (induction rows) (auto simp: find_row_def split: prod.splits)

lemma fst_upsert:
  "fst (upsert_karma rows u g d now) =
     (case find_row rows u g of None \<Rightarrow> d | Some r \<Rightarrow> karma r + d)"
  by (induction rows) (auto simp: find_row_def split: prod.splits)

lemma karma_tbl_update:
  "karma_tbl (snd (update_karma s clk u g d why)) =
     snd (upsert_karma (karma_tbl s) u g d (upsert_now clk))"
  by (simp add: update_karma_def split: prod.splits)

lemma cooldowns_update:
  "cooldowns (snd (update_karma s clk u g d why)) = cooldowns s"
  by (simp add: update_karma_def split: prod.splits)

lemma history_update:
  "karma_history (snd (update_karma s clk u g d why)) =
     karma_history s @
       [\<lparr>h_id = history_seq s + 1, h_user_id = u, h_guild_id = g,
         change = d, reason = why, timestamp = log_now clk\<rparr>]"
  by (simp add: update_karma_def split: prod.splits)

lemma result_update:
  "fst (update_karma s clk u g d why) =
     \<lparr>new_karma = d_karma (get_karma s u g) + d,
      level = calculate_level (d_karma (get_karma s u g) + d)\<rparr>"
  using fst_upsert [of "karma_tbl s" u g d "upsert_now clk"]
  by (auto simp: update_karma_def get_karma_def split: prod.splits option.splits)

lemma get_karma_update:
  "get_karma (snd (update_karma s clk u g d why)) u' g' =
     (if u' = u \<and> g' = g
      then \<lparr>d_karma = d_karma (get_karma s u g) + d, d_last_updated = Some (upsert_now clk)\<rparr>
      else get_karma s u' g')"
  by (simp add: get_karma_def karma_tbl_update find_row_upsert split: option.splits)

lemma snd_admin_set:
  "snd (admin_set s clk t g v why) =
     snd (update_karma s clk t g (v - d_karma (get_karma s t g))
            (Some (reason_or why ''Admin adjustment'')))"
  by (simp add: admin_set_def Let_def split: prod.splits)


lemma get_karma_admin_set:
  "d_karma (get_karma (snd (admin_set s clk t g v why)) t g) = v"
  by (simp add: snd_admin_set get_karma_update)

lemma run_updates_total:
  "d_karma (get_karma (run_updates s cs) u g) =
     d_karma (get_karma s u g)
       + sum_list (map c_delta (filter (\<lambda>c. c_user c = u \<and> c_guild c = g) cs))"
  by (induction cs arbitrary: s) (simp_all add: get_karma_update)

lemma run_updates_int64_step:
  "run_updates_int64 s (c # cs) =
     (case update_karma_int64 s (c_clock c) (c_user c) (c_guild c) (c_delta c) (c_reason c) of
        OverflowError \<Rightarrow> OverflowError
      | RealTotal \<Rightarrow> RealTotal
      | Done p \<Rightarrow> run_updates_int64 (snd p) cs)"
  by (simp split: sql_outcome.splits prod.splits)

lemma run_updates_int64_Done:
  "updates_in_range s cs \<Longrightarrow> run_updates_int64 s cs = Done (run_updates s cs)"
proof (induction cs arbitrary: s)
  case Nil
  then show ?case by simp
next
  case (Cons c cs)
  let ?u = "update_karma s (c_clock c) (c_user c) (c_guild c) (c_delta c) (c_reason c)"
  from Cons.prems have step:
    "update_karma_int64 s (c_clock c) (c_user c) (c_guild c) (c_delta c) (c_reason c) = Done ?u"
    and rest: "updates_in_range (snd ?u) cs"
    by (simp_all add: update_karma_int64_def)
  from Cons.IH [OF rest] step show ?case
    by (cases ?u) simp
qed

lemma run_updates_int64_range:
  "run_updates_int64 s cs = Done s' \<Longrightarrow> updates_in_range s cs"
proof (induction cs arbitrary: s)
  case Nil
  then show ?case by simp
next
  case (Cons c cs)
  let ?u = "update_karma s (c_clock c) (c_user c) (c_guild c) (c_delta c) (c_reason c)"
  from Cons.prems have ok: "in_int64 (c_user c) \<and> in_int64 (c_guild c) \<and> in_int64 (c_delta c)"
    "in_int64 (d_karma (get_karma s (c_user c) (c_guild c)) + c_delta c)"
    by (auto simp: update_karma_int64_def split: if_splits)
  with Cons.prems have "run_updates_int64 (snd ?u) cs = Done s'"
    by (cases ?u) (simp add: update_karma_int64_def)
  then have "updates_in_range (snd ?u) cs" by (rule Cons.IH)
  with ok show ?case by simp
qed

text \<open>
  C1, as stated, fails outside the 64-bit range of the column. A first call with the
  delta \<open>2 ^ 63\<close> raises \<^verbatim>\<open>OverflowError\<close> and creates no row; after a call with the delta
  \<open>2 ^ 63 - 1\<close>, a call with the delta 1 makes the column a \<^verbatim>\<open>REAL\<close>, not the integer sum.
\<close>

theorem update_karma_leaves_int64:
  "update_karma_int64 init_state \<lparr>upsert_now = 10, log_now = 10\<rparr> 1 9 (2 ^ 63) None = OverflowError
   \<and> run_updates_int64 init_state
        [\<lparr>c_clock = \<lparr>upsert_now = 10, log_now = 10\<rparr>, c_user = 1, c_guild = 9,
          c_delta = 2 ^ 63, c_reason = None\<rparr>] = OverflowError
   \<and> run_updates_int64 init_state
        [\<lparr>c_clock = \<lparr>upsert_now = 10, log_now = 10\<rparr>, c_user = 1, c_guild = 9,
          c_delta = 2 ^ 63 - 1, c_reason = None\<rparr>,
         \<lparr>c_clock = \<lparr>upsert_now = 11, log_now = 11\<rparr>, c_user = 1, c_guild = 9,
          c_delta = 1, c_reason = None\<rparr>] = RealTotal"
proof -
  let ?clk = "\<lparr>upsert_now = 10, log_now = 10\<rparr>"
  have zero: "d_karma (get_karma init_state 1 9) = 0"
    by (simp add: get_karma_def find_row_def init_state_def)
  have raised: "update_karma_int64 init_state ?clk 1 9 (2 ^ 63) None = OverflowError"
    by (simp add: update_karma_int64_def in_int64_def)
  have stored: "update_karma_int64 init_state ?clk 1 9 (2 ^ 63 - 1) None =
      Done (update_karma init_state ?clk 1 9 (2 ^ 63 - 1) None)"
    by (simp add: update_karma_int64_def in_int64_def zero)
  have real: "update_karma_int64 (snd (update_karma init_state ?clk 1 9 (2 ^ 63 - 1) None))
      \<lparr>upsert_now = 11, log_now = 11\<rparr> 1 9 1 None = RealTotal"
    by (simp add: update_karma_int64_def in_int64_def get_karma_update zero)
  show ?thesis
    by (simp only: run_updates_int64_step update_call.simps raised stored real
        sql_outcome.case simp_thms)
qed

text \<open>
  C1, amended. For a sequence of \<open>update_karma\<close> calls, for whatever users and guilds,
  in which every value bound and every total reached is a signed 64-bit integer: all
  calls return, and the stored total of a pair \<open>(u, g)\<close> is its total before plus the
  sum of the deltas of the calls made for that pair. A pair with no row reads as 0, so
  its total is the sum alone, and one call for it creates the row with the delta as its
  value and returns that value.
\<close>

theorem update_karma_sum_in_range:
  assumes "updates_in_range s cs"
  shows "run_updates_int64 s cs = Done (run_updates s cs)
   \<and> d_karma (get_karma (run_updates s cs) u g) =
       d_karma (get_karma s u g)
         + sum_list (map c_delta (filter (\<lambda>c. c_user c = u \<and> c_guild c = g) cs))
   \<and> (find_row (karma_tbl s) u g = None \<longrightarrow>
        d_karma (get_karma (run_updates s cs) u g) =
          sum_list (map c_delta (filter (\<lambda>c. c_user c = u \<and> c_guild c = g) cs)))
   \<and> (find_row (karma_tbl s) u g = None \<and> in_int64 u \<and> in_int64 g \<and> in_int64 d \<longrightarrow>
        (\<exists>res s'. update_karma_int64 s clk u g d why = Done (res, s')
           \<and> new_karma res = d
           \<and> find_row (karma_tbl s') u g =
               Some \<lparr>user_id = u, guild_id = g, karma = d,
                     last_updated = Some (upsert_now clk)\<rparr>))"
proof (intro conjI impI)
  show "run_updates_int64 s cs = Done (run_updates s cs)"
    using assms by (rule run_updates_int64_Done)
  show "d_karma (get_karma (run_updates s cs) u g) =
       d_karma (get_karma s u g)
         + sum_list (map c_delta (filter (\<lambda>c. c_user c = u \<and> c_guild c = g) cs))"
    by (rule run_updates_total)
  show "d_karma (get_karma (run_updates s cs) u g) =
          sum_list (map c_delta (filter (\<lambda>c. c_user c = u \<and> c_guild c = g) cs))"
    if "find_row (karma_tbl s) u g = None"
    using that by (simp add: run_updates_total) (simp add: get_karma_def)
  show "\<exists>res s'. update_karma_int64 s clk u g d why = Done (res, s')
           \<and> new_karma res = d
           \<and> find_row (karma_tbl s') u g =
               Some \<lparr>user_id = u, guild_id = g, karma = d,
                     last_updated = Some (upsert_now clk)\<rparr>"
    if h: "find_row (karma_tbl s) u g = None \<and> in_int64 u \<and> in_int64 g \<and> in_int64 d"
  proof -
    from h have zero: "d_karma (get_karma s u g) = 0"
      by (simp add: get_karma_def)
    with h have run: "update_karma_int64 s clk u g d why = Done (update_karma s clk u g d why)"
      by (simp add: update_karma_int64_def)
    have "new_karma (fst (update_karma s clk u g d why)) = d"
      by (simp add: result_update zero)
    moreover have "find_row (karma_tbl (snd (update_karma s clk u g d why))) u g =
        Some \<lparr>user_id = u, guild_id = g, karma = d, last_updated = Some (upsert_now clk)\<rparr>"
      using h by (simp add: karma_tbl_update find_row_upsert)
    ultimately show ?thesis
      using run by (cases "update_karma s clk u g d why") auto
  qed
qed

theorem update_karma_sum_in_range_witness:
  "updates_in_range init_state
        [\<lparr>c_clock = \<lparr>upsert_now = 10, log_now = 10\<rparr>, c_user = 1, c_guild = 9,
          c_delta = 3, c_reason = None\<rparr>,
         \<lparr>c_clock = \<lparr>upsert_now = 11, log_now = 12\<rparr>, c_user = 2, c_guild = 9,
          c_delta = 10, c_reason = Some ''thanks''\<rparr>,
         \<lparr>c_clock = \<lparr>upsert_now = 13, log_now = 13\<rparr>, c_user = 1, c_guild = 9,
          c_delta = - 4, c_reason = None\<rparr>]
   \<and> find_row (karma_tbl init_state) 1 9 = None
   \<and> d_karma (get_karma (run_updates init_state
        [\<lparr>c_clock = \<lparr>upsert_now = 10, log_now = 10\<rparr>, c_user = 1, c_guild = 9,
          c_delta = 3, c_reason = None\<rparr>,
         \<lparr>c_clock = \<lparr>upsert_now = 11, log_now = 12\<rparr>, c_user = 2, c_guild = 9,
          c_delta = 10, c_reason = Some ''thanks''\<rparr>,
         \<lparr>c_clock = \<lparr>upsert_now = 13, log_now = 13\<rparr>, c_user = 1, c_guild = 9,
          c_delta = - 4, c_reason = None\<rparr>]) 1 9) = - 1"
proof -
  have absent: "find_row (karma_tbl init_state) 1 9 = None"
    by (simp add: init_state_def find_row_def)
  have zero: "d_karma (get_karma init_state u 9) = 0" for u
    by (simp add: get_karma_def init_state_def find_row_def)
  have range: "updates_in_range init_state
        [\<lparr>c_clock = \<lparr>upsert_now = 10, log_now = 10\<rparr>, c_user = 1, c_guild = 9,
          c_delta = 3, c_reason = None\<rparr>,
         \<lparr>c_clock = \<lparr>upsert_now = 11, log_now = 12\<rparr>, c_user = 2, c_guild = 9,
          c_delta = 10, c_reason = Some ''thanks''\<rparr>,
         \<lparr>c_clock = \<lparr>upsert_now = 13, log_now = 13\<rparr>, c_user = 1, c_guild = 9,
          c_delta = - 4, c_reason = None\<rparr>]"
    by (simp add: in_int64_def get_karma_update zero)
  show ?thesis
    using absent range
      update_karma_sum_in_range [OF range, of 1 9 3 "\<lparr>upsert_now = 10, log_now = 10\<rparr>" None]
    by simp
qed

section \<open>Levels\<close>

lemma calculate_level_formula: "calculate_level p = min (p div 50) 4"
  by (simp add: calculate_level_def LEVEL_INTERVAL_def LEVELS_def)

lemma calculate_level_le: "calculate_level p \<le> 4"
  by (simp add: calculate_level_formula)

lemma calculate_level_nonneg: "0 \<le> p \<Longrightarrow> 0 \<le> calculate_level p"
  by (simp add: calculate_level_formula)

lemma calculate_level_mono: "p \<le> q \<Longrightarrow> calculate_level p \<le> calculate_level q"
  by (auto simp: calculate_level_formula min_def intro: zdiv_mono1)

text \<open>
  C2. \<open>calculate_level\<close> is \<open>min (points div 50) 4\<close> for every integer, with the floor
  division of Python; it never exceeds 4 and is at least 0 from 0 points upwards (the
  lemmas above). Nothing bounds it from below: at \<open>-1\<close> points the level is \<open>-1\<close>,
  which is neither 0 nor within \<open>[0, 4]\<close>.
\<close>

theorem calculate_level_negative:
  "calculate_level (- 1) = - 1 \<and> calculate_level (- 1) \<noteq> 0 \<and> \<not> 0 \<le> calculate_level (- 1)"
  by (simp add: calculate_level_formula)

lemma getitem_LEVELS:
  "getitem LEVELS l =
     (if - 5 \<le> l \<and> l < 5 then Inr (LEVELS ! nat (if l < 0 then 5 + l else l)) else Inl IndexError)"
  by (auto simp: getitem_def Let_def LEVELS_def)

text \<open>
  C10, as stated, fails at \<open>-250\<close> points, a total within \<open>[-250, -1]\<close>: the level is
  \<open>-5\<close>, and \<^verbatim>\<open>LEVELS[-5]\<close> of a list of five is its first entry, the emoji of level 0.
\<close>

theorem level_lookup_wraps_to_first:
  "calculate_level (- 250) = - 5 \<and> level_emoji_of (- 250) = Inr ''star'' \<and> level_emoji_of 0 = Inr ''star''"
  by (simp add: level_emoji_of_def calculate_level_formula getitem_def LEVELS_def)

lemma level_low: "p \<le> - 251 \<Longrightarrow> calculate_level p \<le> - 6"
  unfolding calculate_level_formula by (simp add: min_def) linarith

lemma level_mid: "- 250 \<le> p \<Longrightarrow> p \<le> - 201 \<Longrightarrow> calculate_level p = - 5"
  unfolding calculate_level_formula by (simp add: min_def) linarith

lemma level_high:
  "- 200 \<le> p \<Longrightarrow> p \<le> - 1 \<Longrightarrow> - 4 \<le> calculate_level p \<and> calculate_level p \<le> - 1"
  unfolding calculate_level_formula by (simp add: min_def) linarith

lemma level_emoji_low: "p \<le> - 251 \<Longrightarrow> level_emoji_of p = Inl IndexError"
  using level_low [of p] by (simp add: level_emoji_of_def getitem_LEVELS)

lemma level_emoji_zero: "level_emoji_of 0 = Inr (LEVELS ! 0)"
  by (simp add: level_emoji_of_def getitem_LEVELS calculate_level_formula)

lemma level_emoji_mid: "- 250 \<le> p \<Longrightarrow> p \<le> - 201 \<Longrightarrow> level_emoji_of p = level_emoji_of 0"
  using level_mid [of p] by (simp add: level_emoji_zero) (simp add: level_emoji_of_def getitem_LEVELS)

lemma level_emoji_defined: "- 250 \<le> p \<Longrightarrow> \<exists>e. level_emoji_of p = Inr e"
  using calculate_level_le [of p] level_mid [of p] level_high [of p] calculate_level_nonneg [of p]
  by (cases "p \<le> - 201"; cases "p \<le> - 1") (simp_all add: level_emoji_of_def getitem_LEVELS)

lemma level_emoji_high:
  assumes "- 200 \<le> p" "p \<le> - 1"
  shows "level_emoji_of p = Inr (LEVELS ! nat (5 + calculate_level p))"
    and "level_emoji_of p \<noteq> level_emoji_of 0"
proof -
  let ?l = "calculate_level p"
  from level_high [OF assms] have l: "- 4 \<le> ?l" "?l \<le> - 1" by simp_all
  then show e: "level_emoji_of p = Inr (LEVELS ! nat (5 + ?l))"
    by (simp add: level_emoji_of_def getitem_LEVELS)
  from l have "nat (5 + ?l) \<in> {1, 2, 3, 4}" by auto
  then have "LEVELS ! nat (5 + ?l) \<noteq> LEVELS ! 0"
    by (auto simp: LEVELS_def)
  with e show "level_emoji_of p \<noteq> level_emoji_of 0"
    by (simp add: level_emoji_zero)
qed

text \<open>
  C10, amended. The subscription \<^verbatim>\<open>KarmaEmojis.LEVELS[calculate_level(points)]\<close> on
  negative totals: at \<open>-251\<close> or less the level is \<open>-6\<close> or less and the subscription
  raises \<^verbatim>\<open>IndexError\<close>; from \<open>-250\<close> to \<open>-201\<close> the level is \<open>-5\<close> and the
  subscription yields the emoji of level 0; from \<open>-200\<close> to \<open>-1\<close> the level is within
  \<open>[-4, -1]\<close> and the subscription counts from the end of the list, yielding the entry
  at \<open>5 + level\<close>, which is not the emoji of level 0. Every such total is reachable:
  after \<open>admin_set\<close> to \<open>p\<close>, the lookup of \<open>karma_check\<close> is the one at \<open>p\<close>.
\<close>

theorem level_lookup_negative:
  "(p \<le> - 251 \<longrightarrow> calculate_level p \<le> - 6 \<and> level_emoji_of p = Inl IndexError)
   \<and> (- 250 \<le> p \<and> p \<le> - 201 \<longrightarrow>
        calculate_level p = - 5 \<and> level_emoji_of p = level_emoji_of 0)
   \<and> (- 200 \<le> p \<and> p \<le> - 1 \<longrightarrow>
        - 4 \<le> calculate_level p \<and> calculate_level p \<le> - 1
        \<and> level_emoji_of p = Inr (LEVELS ! nat (5 + calculate_level p))
        \<and> level_emoji_of p \<noteq> level_emoji_of 0)
   \<and> karma_check_emoji (snd (admin_set s clk u g p why)) u g = level_emoji_of p"
proof (intro conjI impI)
  show "karma_check_emoji (snd (admin_set s clk u g p why)) u g = level_emoji_of p"
    by (simp add: karma_check_emoji_def get_karma_admin_set)
  show "level_emoji_of p \<noteq> level_emoji_of 0" if "- 200 \<le> p \<and> p \<le> - 1"
    using that level_emoji_high(2) [of p] by simp
qed (simp_all add: level_low level_mid level_high level_emoji_low level_emoji_mid level_emoji_high(1))

theorem level_lookup_negative_witness:
  "calculate_level (- 300) \<le> - 6 \<and> level_emoji_of (- 300) = Inl IndexError
   \<and> level_emoji_of (- 201) = level_emoji_of 0
   \<and> level_emoji_of (- 1) = Inr ''comet''
   \<and> karma_check_emoji (snd (admin_set init_state \<lparr>upsert_now = 0, log_now = 0\<rparr> 7 1 (- 300) None)) 7 1
       = Inl IndexError"
  using level_lookup_negative [of "- 300" init_state "\<lparr>upsert_now = 0, log_now = 0\<rparr>" 7 1 None]
    level_lookup_negative [of "- 201" init_state "\<lparr>upsert_now = 0, log_now = 0\<rparr>" 7 1 None]
    level_lookup_negative [of "- 1" init_state "\<lparr>upsert_now = 0, log_now = 0\<rparr>" 7 1 None]
  by (simp add: calculate_level_formula LEVELS_def)

section \<open>Self-targets, administrative set, cleanup\<close>

text \<open>
  C6. \<open>karma_give\<close> and \<open>karma_remove\<close> with the invoking user as target answer
  \<open>SelfTargetError\<close> and return the state as it was, for every amount: the karma table,
  the history and the cooldown entry of the actor are unchanged.
\<close>

theorem self_target_rejected:
  "karma_give s check_now clk record_now actor actor g amount why = (Inl SelfTargetError, s)
   \<and> karma_remove s check_now clk record_now actor actor g amount why = (Inl SelfTargetError, s)
   \<and> karma_tbl (snd (karma_give s check_now clk record_now actor actor g amount why)) = karma_tbl s
   \<and> karma_history (snd (karma_give s check_now clk record_now actor actor g amount why)) = karma_history s
   \<and> cooldowns (snd (karma_give s check_now clk record_now actor actor g amount why)) actor = cooldowns s actor
   \<and> karma_tbl (snd (karma_remove s check_now clk record_now actor actor g amount why)) = karma_tbl s
   \<and> karma_history (snd (karma_remove s check_now clk record_now actor actor g amount why)) = karma_history s
   \<and> cooldowns (snd (karma_remove s check_now clk record_now actor actor g amount why)) actor = cooldowns s actor"
  by (simp add: karma_give_def karma_remove_def)


text \<open>
  C9. \<open>cleanup_task\<close> keeps, in order, the history rows whose timestamp is not before
  the cutoff of 30 days (\<open>30 * 86400\<close> seconds) and removes exactly the older ones; the
  karma table, hence every total, every \<open>last_updated\<close> and every leaderboard, is
  unchanged.
\<close>

theorem cleanup_task_purges:
  "karma_history (cleanup_task s now) =
     filter (\<lambda>e. now - 30 * 86400 \<le> timestamp e) (karma_history s)
   \<and> (\<forall>e \<in> set (karma_history s).
        e \<notin> set (karma_history (cleanup_task s now)) \<longleftrightarrow> timestamp e < now - 30 * 86400)
   \<and> set (karma_history (cleanup_task s now)) \<subseteq> set (karma_history s)
   \<and> karma_tbl (cleanup_task s now) = karma_tbl s
   \<and> get_karma (cleanup_task s now) u g = get_karma s u g
   \<and> get_leaderboard visit (cleanup_task s now) g limit = get_leaderboard visit s g limit"
proof -
  have eq: "(\<lambda>e. \<not> timestamp e < now - retention_seconds) = (\<lambda>e. now - 30 * 86400 \<le> timestamp e)"
    by (auto simp: retention_seconds_def)
  show ?thesis
    by (auto simp: cleanup_task_def eq get_karma_def get_leaderboard_def)
qed

theorem cleanup_task_purges_witness:
  "karma_history (cleanup_task
      \<lparr>karma_tbl = [\<lparr>user_id = 1, guild_id = 9, karma = 8, last_updated = Some 5000000\<rparr>],
       karma_history =
         [\<lparr>h_id = 1, h_user_id = 1, h_guild_id = 9, change = 3, reason = None, timestamp = 100\<rparr>,
          \<lparr>h_id = 2, h_user_id = 1, h_guild_id = 9, change = 5, reason = None, timestamp = 5000000\<rparr>],
       history_seq = 2, cooldowns = Map.empty\<rparr> 2593000) =
     [\<lparr>h_id = 2, h_user_id = 1, h_guild_id = 9, change = 5, reason = None, timestamp = 5000000\<rparr>]
   \<and> d_karma (get_karma (cleanup_task
      \<lparr>karma_tbl = [\<lparr>user_id = 1, guild_id = 9, karma = 8, last_updated = Some 5000000\<rparr>],
       karma_history =
         [\<lparr>h_id = 1, h_user_id = 1, h_guild_id = 9, change = 3, reason = None, timestamp = 100\<rparr>,
          \<lparr>h_id = 2, h_user_id = 1, h_guild_id = 9, change = 5, reason = None, timestamp = 5000000\<rparr>],
       history_seq = 2, cooldowns = Map.empty\<rparr> 2593000) 1 9) = 8"
  using cleanup_task_purges [of
      "\<lparr>karma_tbl = [\<lparr>user_id = 1, guild_id = 9, karma = 8, last_updated = Some 5000000\<rparr>],
       karma_history =
         [\<lparr>h_id = 1, h_user_id = 1, h_guild_id = 9, change = 3, reason = None, timestamp = 100\<rparr>,
          \<lparr>h_id = 2, h_user_id = 1, h_guild_id = 9, change = 5, reason = None, timestamp = 5000000\<rparr>],
       history_seq = 2, cooldowns = Map.empty\<rparr>" 2593000 1 9 table_scan 10]
  by (simp add: get_karma_def find_row_def)

section \<open>The cooldown between two grants\<close>

lemma check_cooldown_Some:
  "cds u = Some last_action \<Longrightarrow>
   check_cooldown cds now u =
     (if now - last_action < 60000000 then Some (60000000 - (now - last_action)) else None)"
  by (simp add: check_cooldown_def COOLDOWN_SECONDS_def Let_def)

lemma check_cooldown_pos: "check_cooldown cds now u = Some remaining \<Longrightarrow> 0 < remaining"
  by (auto simp: check_cooldown_def Let_def split: option.splits if_splits)

lemma karma_give_admitted:
  "target \<noteq> actor \<Longrightarrow> check_cooldown (cooldowns s) check_now actor = None \<Longrightarrow>
   karma_give s check_now clk record_now actor target g amount why =
     (Inr \<lparr>result = fst (update_karma s clk target g amount why),
           level_emoji = getitem LEVELS (level (fst (update_karma s clk target g amount why)))\<rparr>,
      (snd (update_karma s clk target g amount why))
        \<lparr>cooldowns := (cooldowns s)(actor \<mapsto> record_now)\<rparr>)"
  using cooldowns_update [of s clk target g amount why]
  by (cases "update_karma s clk target g amount why") (simp add: karma_give_def)

lemma karma_give_denied:
  "target \<noteq> actor \<Longrightarrow> check_cooldown (cooldowns s) check_now actor = Some remaining \<Longrightarrow>
   karma_give s check_now clk record_now actor target g amount why =
     (Inl (CooldownActiveError remaining), s)"
  using check_cooldown_pos [of "cooldowns s" check_now actor remaining]
  by (simp add: karma_give_def)

lemma karma_give_records:
  assumes "fst (karma_give s check_now clk record_now actor target g amount why) = Inr rep"
  shows "cooldowns (snd (karma_give s check_now clk record_now actor target g amount why)) actor
           = Some record_now"
proof (cases "target = actor")
  case True
  with assms show ?thesis by (simp add: karma_give_def)
next
  case False
  show ?thesis
  proof (cases "check_cooldown (cooldowns s) check_now actor")
    case None
    with False show ?thesis by (simp add: karma_give_admitted)
  next
    case (Some remaining)
    with False assms show ?thesis by (simp add: karma_give_denied)
  qed
qed

text \<open>
  After a \<open>karma_give\<close> of an actor that went through, with \<open>r1\<close> the time it
  recorded, a second \<open>karma_give\<close> of the same actor to another user, checked at time
  \<open>c2\<close> (microseconds): if \<open>c2 - r1\<close> is less than 60 seconds it answers
  \<open>CooldownActiveError\<close> with the positive remainder \<open>60 s - (c2 - r1)\<close> and returns the
  state unchanged; otherwise it passes the gate, adds the amount to the target's total,
  appends the history row and records the actor's new time. The subscription for the
  emoji of the reply yields an emoji when the new total is at least \<open>-250\<close>.
\<close>

lemma cooldown_between_gives:
  assumes "fst (karma_give s c1 clk1 r1 actor t1 g1 a1 why1) = Inr rep"
    and "s1 = snd (karma_give s c1 clk1 r1 actor t1 g1 a1 why1)"
    and "t2 \<noteq> actor"
  shows "(c2 - r1 < 60000000 \<longrightarrow>
            karma_give s1 c2 clk2 r2 actor t2 g2 a2 why2 =
              (Inl (CooldownActiveError (60000000 - (c2 - r1))), s1)
            \<and> 0 < 60000000 - (c2 - r1))
       \<and> (60000000 \<le> c2 - r1 \<longrightarrow>
            fst (karma_give s1 c2 clk2 r2 actor t2 g2 a2 why2) =
              Inr \<lparr>result = \<lparr>new_karma = d_karma (get_karma s1 t2 g2) + a2,
                              level = calculate_level (d_karma (get_karma s1 t2 g2) + a2)\<rparr>,
                   level_emoji = level_emoji_of (d_karma (get_karma s1 t2 g2) + a2)\<rparr>
            \<and> d_karma (get_karma (snd (karma_give s1 c2 clk2 r2 actor t2 g2 a2 why2)) t2 g2) =
                d_karma (get_karma s1 t2 g2) + a2
            \<and> cooldowns (snd (karma_give s1 c2 clk2 r2 actor t2 g2 a2 why2)) actor = Some r2
            \<and> karma_history (snd (karma_give s1 c2 clk2 r2 actor t2 g2 a2 why2)) =
                karma_history s1 @
                  [\<lparr>h_id = history_seq s1 + 1, h_user_id = t2, h_guild_id = g2,
                    change = a2, reason = why2, timestamp = log_now clk2\<rparr>]
            \<and> (- 250 \<le> d_karma (get_karma s1 t2 g2) + a2 \<longrightarrow>
                 (\<exists>e. level_emoji_of (d_karma (get_karma s1 t2 g2) + a2) = Inr e)))"
proof (intro conjI impI)
  show "\<exists>e. level_emoji_of (d_karma (get_karma s1 t2 g2) + a2) = Inr e"
    if "- 250 \<le> d_karma (get_karma s1 t2 g2) + a2"
    using that by (rule level_emoji_defined)
next
  have last_action: "cooldowns s1 actor = Some r1"
    using assms(1,2) karma_give_records by simp
  {
    assume "c2 - r1 < 60000000"
    then have "check_cooldown (cooldowns s1) c2 actor = Some (60000000 - (c2 - r1))"
      using last_action by (simp add: check_cooldown_Some [of "cooldowns s1" actor r1])
    with assms(3)
    show "karma_give s1 c2 clk2 r2 actor t2 g2 a2 why2 =
            (Inl (CooldownActiveError (60000000 - (c2 - r1))), s1)"
      by (rule karma_give_denied)
    show "0 < 60000000 - (c2 - r1)"
      using \<open>c2 - r1 < 60000000\<close> by simp
  }
  assume "60000000 \<le> c2 - r1"
  then have "check_cooldown (cooldowns s1) c2 actor = None"
    using last_action by (simp add: check_cooldown_Some [of "cooldowns s1" actor r1])
  with assms(3) have give:
    "karma_give s1 c2 clk2 r2 actor t2 g2 a2 why2 =
       (Inr \<lparr>result = fst (update_karma s1 clk2 t2 g2 a2 why2),
             level_emoji = getitem LEVELS (level (fst (update_karma s1 clk2 t2 g2 a2 why2)))\<rparr>,
        (snd (update_karma s1 clk2 t2 g2 a2 why2))\<lparr>cooldowns := (cooldowns s1)(actor \<mapsto> r2)\<rparr>)"
    by (rule karma_give_admitted)
  show "fst (karma_give s1 c2 clk2 r2 actor t2 g2 a2 why2) =
          Inr \<lparr>result = \<lparr>new_karma = d_karma (get_karma s1 t2 g2) + a2,
                          level = calculate_level (d_karma (get_karma s1 t2 g2) + a2)\<rparr>,
               level_emoji = level_emoji_of (d_karma (get_karma s1 t2 g2) + a2)\<rparr>"
    by (simp add: give result_update level_emoji_of_def)
  have "get_karma ((snd (update_karma s1 clk2 t2 g2 a2 why2))\<lparr>cooldowns := cds\<rparr>) t2 g2 =
          get_karma (snd (update_karma s1 clk2 t2 g2 a2 why2)) t2 g2" for cds
    by (simp add: get_karma_def)
  then show "d_karma (get_karma (snd (karma_give s1 c2 clk2 r2 actor t2 g2 a2 why2)) t2 g2) =
          d_karma (get_karma s1 t2 g2) + a2"
    by (simp add: give get_karma_update)
  show "cooldowns (snd (karma_give s1 c2 clk2 r2 actor t2 g2 a2 why2)) actor = Some r2"
    by (simp add: give)
  show "karma_history (snd (karma_give s1 c2 clk2 r2 actor t2 g2 a2 why2)) =
          karma_history s1 @
            [\<lparr>h_id = history_seq s1 + 1, h_user_id = t2, h_guild_id = g2,
              change = a2, reason = why2, timestamp = log_now clk2\<rparr>]"
    by (simp add: give history_update)
qed

text \<open>
  C7. The denial within the window holds (\<open>cooldown_between_gives\<close>), but a second give
  after the window does not always succeed. User 3 stands at \<open>-300\<close> points (set by
  \<open>admin_set\<close>); actor 1 gives 3 points to user 2, and more than 60 seconds later 5
  points to user 3. The second call passes the gate, stores the total \<open>-295\<close> and the
  actor's new time, and then \<^verbatim>\<open>KarmaEmojis.LEVELS[-6]\<close> raises \<^verbatim>\<open>IndexError\<close>.
\<close>

theorem give_after_window_raises:
  "fst (karma_give
          (snd (admin_set init_state \<lparr>upsert_now = 0, log_now = 0\<rparr> 3 9 (- 300) None))
          0 \<lparr>upsert_now = 1, log_now = 1\<rparr> 5 1 2 9 3 None) =
     Inr \<lparr>result = \<lparr>new_karma = 3, level = 0\<rparr>, level_emoji = Inr ''star''\<rparr>
   \<and> fst (karma_give
          (snd (karma_give
             (snd (admin_set init_state \<lparr>upsert_now = 0, log_now = 0\<rparr> 3 9 (- 300) None))
             0 \<lparr>upsert_now = 1, log_now = 1\<rparr> 5 1 2 9 3 None))
          60000005 \<lparr>upsert_now = 61, log_now = 61\<rparr> 60000006 1 3 9 5 None) =
     Inr \<lparr>result = \<lparr>new_karma = - 295, level = - 6\<rparr>, level_emoji = Inl IndexError\<rparr>
   \<and> d_karma (get_karma (snd (karma_give
          (snd (karma_give
             (snd (admin_set init_state \<lparr>upsert_now = 0, log_now = 0\<rparr> 3 9 (- 300) None))
             0 \<lparr>upsert_now = 1, log_now = 1\<rparr> 5 1 2 9 3 None))
          60000005 \<lparr>upsert_now = 61, log_now = 61\<rparr> 60000006 1 3 9 5 None)) 3 9) = - 295
   \<and> cooldowns (snd (karma_give
          (snd (karma_give
             (snd (admin_set init_state \<lparr>upsert_now = 0, log_now = 0\<rparr> 3 9 (- 300) None))
             0 \<lparr>upsert_now = 1, log_now = 1\<rparr> 5 1 2 9 3 None))
          60000005 \<lparr>upsert_now = 61, log_now = 61\<rparr> 60000006 1 3 9 5 None)) 1 = Some 60000006"
proof -
  let ?s0 = "snd (admin_set init_state \<lparr>upsert_now = 0, log_now = 0\<rparr> 3 9 (- 300) None)"
  let ?clk1 = "\<lparr>upsert_now = 1, log_now = 1\<rparr>"
  let ?s1 = "snd (karma_give ?s0 0 ?clk1 5 1 2 9 3 None)"
  have free: "check_cooldown (cooldowns ?s0) 0 1 = None"
    by (simp add: snd_admin_set cooldowns_update check_cooldown_def init_state_def)
  have other: "(2::int) \<noteq> 1" "(3::int) \<noteq> 1" by simp_all
  note give1 = karma_give_admitted [OF other(1) free, of ?clk1 5 9 3 None]
  have at2: "d_karma (get_karma ?s0 2 9) = 0"
    by (simp add: snd_admin_set get_karma_update) (simp add: get_karma_def find_row_def init_state_def)
  have first: "fst (karma_give ?s0 0 ?clk1 5 1 2 9 3 None) =
      Inr \<lparr>result = \<lparr>new_karma = 3, level = 0\<rparr>, level_emoji = Inr ''star''\<rparr>"
    by (simp add: give1 result_update at2 calculate_level_formula getitem_def LEVELS_def)
  have "get_karma ?s1 3 9 = get_karma (snd (update_karma ?s0 ?clk1 2 9 3 None)) 3 9"
    by (simp add: give1 get_karma_def)
  then have at3: "d_karma (get_karma ?s1 3 9) = - 300"
    by (simp add: get_karma_update get_karma_admin_set)
  have low: "level_emoji_of (- 295) = Inl IndexError"
    by (rule level_emoji_low) simp
  show ?thesis
    using first
      cooldown_between_gives [OF first refl other(2), where ?c2.0 = 60000005
        and ?clk2.0 = "\<lparr>upsert_now = 61, log_now = 61\<rparr>" and ?r2.0 = 60000006 and ?g2.0 = 9
        and ?a2.0 = 5 and ?why2.0 = None]
    by (simp add: at3 low calculate_level_formula)
qed

section \<open>Reactions and the level-up message\<close>

lemma snd_reaction:
  "emoji payload \<in> set REACTIONS \<Longrightarrow> p_user_id payload \<noteq> author \<Longrightarrow>
   snd (on_raw_reaction_add s clk payload author) =
     snd (update_karma s clk author (p_guild_id payload) 1
            (Some (''Received '' @ emoji payload @ '' reaction'')))"
  by (simp add: on_raw_reaction_add_def Let_def split: prod.splits sum.splits)

lemma fst_reaction:
  assumes "emoji payload \<in> set REACTIONS" "p_user_id payload \<noteq> author"
  shows "fst (on_raw_reaction_add s clk payload author) =
     (if 1 < d_karma (get_karma s author (p_guild_id payload)) + 1
      then Inr (Some \<lparr>recipient = author,
             up_emoji = LEVELS ! nat (calculate_level (d_karma (get_karma s author (p_guild_id payload)) + 1)),
             up_level = calculate_level (d_karma (get_karma s author (p_guild_id payload)) + 1)\<rparr>)
      else Inr None)"
proof -
  let ?n = "d_karma (get_karma s author (p_guild_id payload)) + 1"
  let ?u = "update_karma s clk author (p_guild_id payload) 1
            (Some (''Received '' @ emoji payload @ '' reaction''))"
  have res: "new_karma (fst ?u) = ?n"
    by (simp add: result_update)
  have run: "fst (on_raw_reaction_add s clk payload author) =
      (if calculate_level ?n > (if ?n > 1 then calculate_level ?n - 1 else 0)
       then (case getitem LEVELS (calculate_level ?n) of
               Inl e \<Rightarrow> Inl e
             | Inr em \<Rightarrow> Inr (Some \<lparr>recipient = author, up_emoji = em,
                                     up_level = calculate_level ?n\<rparr>))
       else Inr None)"
    using assms res
    by (cases ?u) (simp add: on_raw_reaction_add_def Let_def split: sum.splits)
  show ?thesis
  proof (cases "1 < ?n")
    case True
    then have "0 \<le> calculate_level ?n" "calculate_level ?n \<le> 4"
      by (simp_all add: calculate_level_nonneg calculate_level_le)
    then have "getitem LEVELS (calculate_level ?n) = Inr (LEVELS ! nat (calculate_level ?n))"
      by (simp add: getitem_LEVELS)
    with True show ?thesis by (simp add: run)
  next
    case False
    then have "calculate_level ?n \<le> calculate_level 1"
      by (intro calculate_level_mono) simp
    then have "calculate_level ?n \<le> 0"
      by (simp add: calculate_level_formula [of 1])
    with False show ?thesis by (simp add: run)
  qed
qed

text \<open>
  C3, as stated, fails: a recognised reaction of the author to the author's own message
  returns at the guard \<^verbatim>\<open>payload.user_id == message.author.id\<close> and grants nothing.
\<close>

theorem reaction_self_no_grant:
  "''thumbs_up'' \<in> set REACTIONS
   \<and> on_raw_reaction_add init_state \<lparr>upsert_now = 0, log_now = 0\<rparr>
        \<lparr>emoji = ''thumbs_up'', p_user_id = 7, p_guild_id = 9\<rparr> 7 = (Inr None, init_state)
   \<and> d_karma (get_karma (snd (on_raw_reaction_add init_state \<lparr>upsert_now = 0, log_now = 0\<rparr>
        \<lparr>emoji = ''thumbs_up'', p_user_id = 7, p_guild_id = 9\<rparr> 7)) 7 9)
       \<noteq> d_karma (get_karma init_state 7 9) + 1"
  by (simp add: on_raw_reaction_add_def REACTIONS_def get_karma_def find_row_def init_state_def)

text \<open>
  C3, amended. A reaction with a recognised emoji by a user other than the author of the
  message does what \<open>update_karma\<close> with delta 1 for the author does: the author's
  total grows by 1, whatever the cooldowns hold, and they are left as they were. A
  reaction by the author leaves the state unchanged and sends nothing.
\<close>

theorem reaction_grant:
  assumes "emoji payload \<in> set REACTIONS"
  shows "(p_user_id payload \<noteq> author \<longrightarrow>
            snd (on_raw_reaction_add s clk payload author) =
              snd (update_karma s clk author (p_guild_id payload) 1
                     (Some (''Received '' @ emoji payload @ '' reaction'')))
            \<and> d_karma (get_karma (snd (on_raw_reaction_add s clk payload author))
                  author (p_guild_id payload)) =
                d_karma (get_karma s author (p_guild_id payload)) + 1
            \<and> cooldowns (snd (on_raw_reaction_add s clk payload author)) = cooldowns s
            \<and> karma_tbl (snd (on_raw_reaction_add (s\<lparr>cooldowns := cds\<rparr>) clk payload author)) =
                karma_tbl (snd (on_raw_reaction_add s clk payload author)))
       \<and> (p_user_id payload = author \<longrightarrow>
            on_raw_reaction_add s clk payload author = (Inr None, s))"
proof (intro conjI impI)
  assume "p_user_id payload = author"
  with assms show "on_raw_reaction_add s clk payload author = (Inr None, s)"
    by (simp add: on_raw_reaction_add_def)
next
  assume other: "p_user_id payload \<noteq> author"
  note snd_eq = snd_reaction [OF assms other]
  show "snd (on_raw_reaction_add s clk payload author) =
          snd (update_karma s clk author (p_guild_id payload) 1
                 (Some (''Received '' @ emoji payload @ '' reaction'')))"
    by (rule snd_eq)
  show "d_karma (get_karma (snd (on_raw_reaction_add s clk payload author))
          author (p_guild_id payload)) = d_karma (get_karma s author (p_guild_id payload)) + 1"
    by (simp add: snd_eq get_karma_update)
  show "cooldowns (snd (on_raw_reaction_add s clk payload author)) = cooldowns s"
    by (simp add: snd_eq cooldowns_update)
  show "karma_tbl (snd (on_raw_reaction_add (s\<lparr>cooldowns := cds\<rparr>) clk payload author)) =
          karma_tbl (snd (on_raw_reaction_add s clk payload author))"
    by (simp add: snd_eq karma_tbl_update)
qed

theorem reaction_grant_witness:
  "''fire'' \<in> set REACTIONS
   \<and> d_karma (get_karma (snd (on_raw_reaction_add init_state \<lparr>upsert_now = 0, log_now = 0\<rparr>
        \<lparr>emoji = ''fire'', p_user_id = 3, p_guild_id = 9\<rparr> 7)) 7 9) = 1
   \<and> on_raw_reaction_add init_state \<lparr>upsert_now = 0, log_now = 0\<rparr>
        \<lparr>emoji = ''fire'', p_user_id = 7, p_guild_id = 9\<rparr> 7 = (Inr None, init_state)"
proof -
  have known: "emoji \<lparr>emoji = ''fire'', p_user_id = 3, p_guild_id = 9\<rparr> \<in> set REACTIONS"
    "emoji \<lparr>emoji = ''fire'', p_user_id = 7, p_guild_id = 9\<rparr> \<in> set REACTIONS"
    by (simp_all add: REACTIONS_def)
  have zero: "d_karma (get_karma init_state 7 9) = 0"
    by (simp add: get_karma_def find_row_def init_state_def)
  show ?thesis
    using known
      reaction_grant [OF known(1), of 7 init_state "\<lparr>upsert_now = 0, log_now = 0\<rparr>" Map.empty]
      reaction_grant [OF known(2), of 7 init_state "\<lparr>upsert_now = 0, log_now = 0\<rparr>" Map.empty]
    by (simp add: zero get_karma_update)
qed

text \<open>
  C5. The handler sends the level-up message exactly when the new total exceeds 1
  (\<open>fst_reaction\<close>), since \<open>old_level\<close> is then \<open>new_level - 1\<close>. A grant from 1 to 2
  points sends it although the level of 2 and the level of 1 are both 0.
\<close>

theorem level_up_without_boundary:
  "fst (on_raw_reaction_add
          (snd (update_karma init_state \<lparr>upsert_now = 0, log_now = 0\<rparr> 2 9 1 None))
          \<lparr>upsert_now = 1, log_now = 1\<rparr>
          \<lparr>emoji = ''fire'', p_user_id = 3, p_guild_id = 9\<rparr> 2) =
     Inr (Some \<lparr>recipient = 2, up_emoji = ''star'', up_level = 0\<rparr>)
   \<and> calculate_level 2 = 0 \<and> calculate_level (2 - 1) = 0"
proof -
  have "d_karma (get_karma (snd (update_karma init_state \<lparr>upsert_now = 0, log_now = 0\<rparr> 2 9 1 None)) 2 9) = 1"
    by (simp add: get_karma_update) (simp add: get_karma_def find_row_def init_state_def)
  then show ?thesis
    by (simp add: fst_reaction REACTIONS_def calculate_level_formula LEVELS_def)
qed

section \<open>The leaderboard\<close>

lemma sorted_sql_limit: "sorted_wrt R xs \<Longrightarrow> sorted_wrt R (sql_limit n xs)"
  by (simp add: sql_limit_def sorted_wrt_take)

lemma prefix_sql_limit: "prefix (sql_limit n xs) xs"
  by (simp add: sql_limit_def take_is_prefix)

lemma length_sql_limit: "0 \<le> n \<Longrightarrow> length (sql_limit n xs) \<le> nat n"
  by (simp add: sql_limit_def)

lemma karma_desc_sort_key:
  "sorted_wrt (\<lambda>x y. karma y \<le> karma x) (sort_key (\<lambda>r. - karma r) rows)"
proof -
  have "sorted (map (\<lambda>r. - karma r) (sort_key (\<lambda>r. - karma r) rows))"
    by (rule sorted_sort_key)
  then show ?thesis
    by (simp add: sorted_map)
qed

lemma mset_table_scan: "mset (table_scan rows) = mset rows"
  by (simp add: table_scan_def)

lemma mset_index_scan: "mset (index_scan rows) = mset rows"
  by (simp add: index_scan_def)

text \<open>
  Every order of the guild's rows that is sorted by karma descending is the outcome of
  some \<open>visit\<close>: the parameter leaves the ties as open as the query does.
\<close>

lemma get_leaderboard_any_order:
  assumes "sorted_wrt (\<lambda>x y. karma y \<le> karma x) rows"
  shows "get_leaderboard (\<lambda>_. rows) s g limit =
           map (\<lambda>r. (user_id r, karma r)) (sql_limit limit rows)"
proof -
  from assms have "sorted (map (\<lambda>r. - karma r) rows)"
    by (simp add: sorted_map)
  then have "sort_key (\<lambda>r. - karma r) rows = rows"
    by (rule sort_key_id_if_sorted)
  then show ?thesis
    by (simp add: get_leaderboard_def)
qed

text \<open>
  C4, as stated, fails: user 2 and then user 1 receive 5 points each; with the scan of
  the table, the plan of SQLite on a database without statistics, the leaderboard lists
  user 2 before user 1, which is not the order of the specification.
\<close>

theorem leaderboard_ties_in_row_order:
  "get_leaderboard table_scan (run_updates init_state
      [\<lparr>c_clock = \<lparr>upsert_now = 10, log_now = 10\<rparr>, c_user = 2, c_guild = 9,
        c_delta = 5, c_reason = None\<rparr>,
       \<lparr>c_clock = \<lparr>upsert_now = 20, log_now = 20\<rparr>, c_user = 1, c_guild = 9,
        c_delta = 5, c_reason = None\<rparr>]) 9 10 = [(2, 5), (1, 5)]
   \<and> \<not> spec_leaderboard_order (get_leaderboard table_scan (run_updates init_state
      [\<lparr>c_clock = \<lparr>upsert_now = 10, log_now = 10\<rparr>, c_user = 2, c_guild = 9,
        c_delta = 5, c_reason = None\<rparr>,
       \<lparr>c_clock = \<lparr>upsert_now = 20, log_now = 20\<rparr>, c_user = 1, c_guild = 9,
        c_delta = 5, c_reason = None\<rparr>]) 9 10)"
  by (simp add: get_leaderboard_def table_scan_def sql_limit_def init_state_def update_karma_def
      spec_leaderboard_order_def)

text \<open>
  The same table read through the index of the primary key gives the other order: the
  query does not settle which of the two a caller sees.
\<close>

lemma leaderboard_ties_by_index:
  "get_leaderboard index_scan (run_updates init_state
      [\<lparr>c_clock = \<lparr>upsert_now = 10, log_now = 10\<rparr>, c_user = 2, c_guild = 9,
        c_delta = 5, c_reason = None\<rparr>,
       \<lparr>c_clock = \<lparr>upsert_now = 20, log_now = 20\<rparr>, c_user = 1, c_guild = 9,
        c_delta = 5, c_reason = None\<rparr>]) 9 10 = [(1, 5), (2, 5)]"
  by (simp add: get_leaderboard_def index_scan_def sql_limit_def init_state_def update_karma_def)

text \<open>
  C4, amended. Whatever the order in which the engine visits the rows of the guild, the
  leaderboard is sorted by points descending, it has at most \<open>limit\<close> entries when
  \<open>limit\<close> is not negative, and its entries are rows of the guild. Nothing is said of
  the order among entries of equal points: the query does not determine it.
\<close>

theorem get_leaderboard_sorted:
  assumes "mset (visit (filter (\<lambda>r. guild_id r = g) (karma_tbl s))) =
           mset (filter (\<lambda>r. guild_id r = g) (karma_tbl s))"
  shows "sorted_wrt (\<lambda>a b. snd b \<le> snd a) (get_leaderboard visit s g limit)
   \<and> (0 \<le> limit \<longrightarrow> length (get_leaderboard visit s g limit) \<le> nat limit)
   \<and> set (get_leaderboard visit s g limit)
        \<subseteq> (\<lambda>r. (user_id r, karma r)) ` {r \<in> set (karma_tbl s). guild_id r = g}"
proof (intro conjI impI)
  let ?rows = "filter (\<lambda>r. guild_id r = g) (karma_tbl s)"
  let ?sorted = "sort_key (\<lambda>r. - karma r) (visit ?rows)"
  let ?entry = "\<lambda>r. (user_id r, karma r)"
  have board: "get_leaderboard visit s g limit = map ?entry (sql_limit limit ?sorted)"
    by (simp add: get_leaderboard_def)
  show "sorted_wrt (\<lambda>a b. snd b \<le> snd a) (get_leaderboard visit s g limit)"
    by (simp add: board sorted_wrt_map sorted_sql_limit karma_desc_sort_key)
  show "length (get_leaderboard visit s g limit) \<le> nat limit" if "0 \<le> limit"
    using that by (simp add: board length_sql_limit)
  have "set (sql_limit limit ?sorted) \<subseteq> set ?sorted"
    using prefix_sql_limit [of limit ?sorted] by (rule set_mono_prefix)
  moreover have "set (visit ?rows) = set ?rows"
    using assms by (rule mset_eq_setD)
  ultimately show "set (get_leaderboard visit s g limit)
        \<subseteq> ?entry ` {r \<in> set (karma_tbl s). guild_id r = g}"
    by (auto simp: board)
qed

theorem get_leaderboard_sorted_witness:
  "mset (index_scan (filter (\<lambda>r. guild_id r = 9)
      [\<lparr>user_id = 4, guild_id = 9, karma = 2, last_updated = None\<rparr>,
       \<lparr>user_id = 3, guild_id = 9, karma = 7, last_updated = None\<rparr>,
       \<lparr>user_id = 1, guild_id = 9, karma = 2, last_updated = None\<rparr>])) =
   mset (filter (\<lambda>r. guild_id r = 9)
      [\<lparr>user_id = 4, guild_id = 9, karma = 2, last_updated = None\<rparr>,
       \<lparr>user_id = 3, guild_id = 9, karma = 7, last_updated = None\<rparr>,
       \<lparr>user_id = 1, guild_id = 9, karma = 2, last_updated = None\<rparr>])
   \<and> get_leaderboard index_scan
      \<lparr>karma_tbl = [\<lparr>user_id = 4, guild_id = 9, karma = 2, last_updated = None\<rparr>,
                    \<lparr>user_id = 3, guild_id = 9, karma = 7, last_updated = None\<rparr>,
                    \<lparr>user_id = 1, guild_id = 9, karma = 2, last_updated = None\<rparr>],
       karma_history = [], history_seq = 0, cooldowns = Map.empty\<rparr> 9 2 = [(3, 7), (1, 2)]
   \<and> (0::int) \<le> 2
   \<and> length (get_leaderboard index_scan
      \<lparr>karma_tbl = [\<lparr>user_id = 4, guild_id = 9, karma = 2, last_updated = None\<rparr>,
                    \<lparr>user_id = 3, guild_id = 9, karma = 7, last_updated = None\<rparr>,
                    \<lparr>user_id = 1, guild_id = 9, karma = 2, last_updated = None\<rparr>],
       karma_history = [], history_seq = 0, cooldowns = Map.empty\<rparr> 9 2) \<le> nat 2"
proof -
  let ?s = "\<lparr>karma_tbl = [\<lparr>user_id = 4, guild_id = 9, karma = 2, last_updated = None\<rparr>,
                    \<lparr>user_id = 3, guild_id = 9, karma = 7, last_updated = None\<rparr>,
                    \<lparr>user_id = 1, guild_id = 9, karma = 2, last_updated = None\<rparr>],
       karma_history = [], history_seq = 0, cooldowns = Map.empty\<rparr>"
  have perm: "mset (index_scan (filter (\<lambda>r. guild_id r = 9) (karma_tbl ?s))) =
      mset (filter (\<lambda>r. guild_id r = 9) (karma_tbl ?s))"
    by (rule mset_index_scan)
  have board: "get_leaderboard index_scan ?s 9 2 = [(3, 7), (1, 2)]"
    by (simp add: get_leaderboard_def index_scan_def sql_limit_def)
  show ?thesis
    using perm board
      get_leaderboard_sorted [where visit = index_scan and g = 9 and s = ?s and limit = 2]
    by simp
qed

end
